theory Spec2Isabelle
  imports Complex_Main "HOL-Library.Word" "HOL-Library.Multiset"
begin

text \<open>
  The envelope image store of \<open>server.js\<close>: one image per envelope, kept as a file in a
  GridFS bucket and a document in the collection of the model \<open>Upload\<close>. The theory
  embeds the five route handlers over an explicit state, the catalog and the bucket, with
  the outcome of every awaited database call given from outside, and proves what the
  handlers guarantee about validation, failure, listing and the order of their storage
  effects.
\<close>

section \<open>JavaScript numbers and the coercion \<open>Number(...)\<close>\<close>

text \<open>
  The handlers of \<open>server.js\<close> coerce the envelope id with \<open>Number(...)\<close> and test it
  with \<open>Number.isInteger\<close> and \<open>< 0\<close>. A JavaScript number is an IEEE double: not a
  number, an infinity, or a finite value, which is a rational. The sign of zero is not
  kept: \<open>-0\<close> passes \<open>Number.isInteger\<close>, is not \<open>< 0\<close> and equals \<open>0\<close> in every
  comparison the handlers and the database make.
\<close>

datatype jsnum = NaN | PosInf | NegInf | Fin rat

definition Number_isInteger :: "jsnum \<Rightarrow> bool" where
  "Number_isInteger v = (case v of Fin r \<Rightarrow> r = of_int \<lfloor>r\<rfloor> | _ \<Rightarrow> False)"

definition js_lt0 :: "jsnum \<Rightarrow> bool" where
  "js_lt0 v = (case v of Fin r \<Rightarrow> r < 0 | NegInf \<Rightarrow> True | _ \<Rightarrow> False)"

subsection \<open>Rounding a mathematical value to the nearest double\<close>

definition pow2 :: "int \<Rightarrow> rat" where
  "pow2 k = (if 0 \<le> k then 2 ^ nat k else 1 / 2 ^ nat (- k))"

text \<open>
  The binary exponent of a positive value, \<open>\<lfloor>log\<^sub>2 x\<rfloor>\<close>: for a whole number by
  halving, for \<open>x \<ge> 1\<close> that of its floor, for \<open>x < 1\<close> the negated least \<open>k\<close> with
  \<open>1 / x \<le> 2 ^ k\<close>.
\<close>

function ilog2 :: "int \<Rightarrow> int" where
  "ilog2 n = (if n \<le> 1 then 0 else 1 + ilog2 (n div 2))"
  by pat_completeness auto
termination
  by (relation "measure nat") auto

declare ilog2.simps [simp del]

definition floor_log2 :: "rat \<Rightarrow> int" where
  "floor_log2 x = (if 1 \<le> x then ilog2 \<lfloor>x\<rfloor> else - (ilog2 (\<lceil>1 / x\<rceil> - 1) + 1))"

definition round_half_even :: "rat \<Rightarrow> int" where
  "round_half_even x =
     (let f = \<lfloor>x\<rfloor>; d = x - of_int f
      in if d < 1 / 2 then f
         else if 1 / 2 < d then f + 1
         else if even f then f else f + 1)"

definition to_double :: "rat \<Rightarrow> jsnum" where
  "to_double x =
     (if x = 0 then Fin 0
      else
        let a = \<bar>x\<bar>;
            e = max (floor_log2 a) (- 1022);
            ulp = pow2 (e - 52);
            v = of_int (round_half_even (a / ulp)) * ulp
        in if pow2 1024 \<le> v then (if x < 0 then NegInf else PosInf)
           else Fin (if x < 0 then - v else v))"

subsection \<open>StringToNumber\<close>

text \<open>
  A string is a list of code units below 256. Of the white space and line terminators
  that the StringNumericLiteral grammar strips, the ones in that range are TAB, LF, VT,
  FF, CR, SP and the no-break space U+00A0.
\<close>

definition is_ws :: "char \<Rightarrow> bool" where
  "is_ws c =
     (c \<in> set [CHR 0x09, CHR 0x0A, CHR 0x0B, CHR 0x0C, CHR 0x0D, CHR 0x20, CHR 0xA0])"

definition trim :: "string \<Rightarrow> string" where
  "trim s = rev (dropWhile is_ws (rev (dropWhile is_ws s)))"

definition is_digit :: "char \<Rightarrow> bool" where
  "is_digit c = (48 \<le> (of_char c :: int) \<and> (of_char c :: int) \<le> 57)"

definition digit_val :: "char \<Rightarrow> int" where
  "digit_val c =
     (let n = (of_char c :: int)
      in if 48 \<le> n \<and> n \<le> 57 then n - 48
         else if 97 \<le> n \<and> n \<le> 102 then n - 87
         else if 65 \<le> n \<and> n \<le> 70 then n - 55
         else 16)"

definition digits_val :: "int \<Rightarrow> string \<Rightarrow> int" where
  "digits_val b ds = foldl (\<lambda>a c. b * a + digit_val c) 0 ds"

definition radix_literal :: "int \<Rightarrow> string \<Rightarrow> jsnum" where
  "radix_literal b ds =
     (if ds \<noteq> [] \<and> list_all (\<lambda>c. digit_val c < b) ds
      then to_double (of_int (digits_val b ds)) else NaN)"

text \<open>The exponent part: empty, or \<open>e\<close>/\<open>E\<close>, an optional sign and at least one digit.\<close>

definition exponent_part :: "string \<Rightarrow> int option" where
  "exponent_part s =
     (case s of
        [] \<Rightarrow> Some 0
      | c # r \<Rightarrow>
          if c = CHR ''e'' \<or> c = CHR ''E'' then
            (let (neg, ds) = (case r of
                                [] \<Rightarrow> (False, [])
                              | d # r' \<Rightarrow> if d = CHR ''-'' then (True, r')
                                         else if d = CHR ''+'' then (False, r')
                                         else (False, r))
             in if ds \<noteq> [] \<and> list_all is_digit ds
                then Some (if neg then - digits_val 10 ds else digits_val 10 ds)
                else None)
          else None)"

definition unsigned_decimal :: "string \<Rightarrow> rat option" where
  "unsigned_decimal s =
     (let ip = takeWhile is_digit s;
          r1 = dropWhile is_digit s;
          dot = (case r1 of [] \<Rightarrow> False | c # _ \<Rightarrow> c = CHR ''.'');
          fp = (if dot then takeWhile is_digit (tl r1) else []);
          r2 = (if dot then dropWhile is_digit (tl r1) else r1)
      in if ip = [] \<and> fp = [] then None
         else (case exponent_part r2 of
                 None \<Rightarrow> None
               | Some ex \<Rightarrow>
                   let m = rat_of_int (digits_val 10 (ip @ fp));
                       k = ex - int (length fp)
                   in Some (if 0 \<le> k then m * 10 ^ nat k else m / 10 ^ nat (- k))))"

definition str_decimal :: "string \<Rightarrow> jsnum" where
  "str_decimal s =
     (let neg = (case s of [] \<Rightarrow> False | c # _ \<Rightarrow> c = CHR ''-'');
          signed = (case s of [] \<Rightarrow> False | c # _ \<Rightarrow> c = CHR ''-'' \<or> c = CHR ''+'');
          u = (if signed then tl s else s)
      in if u = ''Infinity'' then (if neg then NegInf else PosInf)
         else (case unsigned_decimal u of
                 None \<Rightarrow> NaN
               | Some m \<Rightarrow> to_double (if neg then - m else m)))"

definition StringToNumber :: "string \<Rightarrow> jsnum" where
  "StringToNumber s =
     (let t = trim s
      in if t = [] then Fin 0
         else (case t of
                 c # d # ds \<Rightarrow>
                   if c = CHR ''0'' \<and> (d = CHR ''x'' \<or> d = CHR ''X'') then radix_literal 16 ds
                   else if c = CHR ''0'' \<and> (d = CHR ''o'' \<or> d = CHR ''O'') then radix_literal 8 ds
                   else if c = CHR ''0'' \<and> (d = CHR ''b'' \<or> d = CHR ''B'') then radix_literal 2 ds
                   else str_decimal t
               | _ \<Rightarrow> str_decimal t))"

text \<open>
  \<open>Number(v)\<close> for the values a form field or a route parameter can have: \<open>undefined\<close>
  (\<open>None\<close>) gives \<open>NaN\<close>, a string is converted by StringToNumber.
\<close>

definition Number :: "string option \<Rightarrow> jsnum" where
  "Number v = (case v of None \<Rightarrow> NaN | Some s \<Rightarrow> StringToNumber s)"

section \<open>Stored data\<close>

type_synonym byte = "8 word"

text \<open>
  An ObjectId of the database driver is identified with its canonical string form, 24
  lower-case hexadecimal digits, so \<open>String(id)\<close> is the identity. The constructor
  \<open>new mongoose.Types.ObjectId(s)\<close> accepts a string of 24 hexadecimal digits in either
  case and throws on any other string, written \<open>None\<close>. (The twelve-character form
  that older versions of the driver also take is left out; the handlers never produce
  it.)
\<close>

definition hex_lower :: "char \<Rightarrow> char" where
  "hex_lower c =
     (let n = (of_char c :: int)
      in if 65 \<le> n \<and> n \<le> 70 then char_of (n + 32) else c)"

definition ObjectId :: "string \<Rightarrow> string option" where
  "ObjectId s =
     (if length s = 24 \<and> list_all (\<lambda>c. digit_val c < 16) s
      then Some (map hex_lower s) else None)"

text \<open>
  A file of the GridFS bucket \<open>uploads\<close>: what \<open>openUploadStream(name, {contentType,
  metadata: {envelopeId}})\<close> records once the stream has finished, with the bytes of its
  chunks.
\<close>

record gridfile =
  filename :: string
  contentType :: string
  metadata_envelopeId :: jsnum
  chunks :: "byte list"

text \<open>
  Modelled from the spec: the document type of the model \<open>Upload\<close>. Its schema,
  \<open>models/upload.js\<close>, is not among the sources; the fields are the ones the handlers
  read and write, and \<open>createdAt\<close> is set when the document is inserted and kept on
  update (spec, section 3). \<open>fileId\<close> is \<open>None\<close> on a document that has no such field.
\<close>

record upload_doc =
  doc_id :: string
  envelopeId :: jsnum
  originalName :: string
  mimeType :: string
  doc_size :: nat
  fileId :: "string option"
  url :: string
  createdAt :: int

text \<open>
  The state the handlers work on: the two module variables \<open>isConnected\<close> and
  \<open>gfsBucket\<close> (\<open>True\<close> once the bucket object exists), the collection of Upload
  documents in its natural order, and the files of the bucket by ObjectId.
\<close>

record world =
  isConnected :: bool
  gfsBucket :: bool
  uploads :: "upload_doc list"
  files :: "string \<rightharpoonup> gridfile"

text \<open>
  What the surroundings decide during one request: which awaited database call rejects
  (\<open>Some\<close> the error's message), the ObjectId the driver gives the new upload stream, the
  \<open>_id\<close> and the clock value a newly inserted document gets.
\<close>

record env =
  connect_err :: "string option"
  findOne_err :: "string option"
  upload_err :: "string option"
  upsert_err :: "string option"
  remove_err :: "string option"
  find_err :: "string option"
  download_err :: bool
  newFileId :: string
  newDocId :: string
  now :: int

text \<open>\<open>process.env.UPLOAD_DIR\<close> and \<open>maxFileSize\<close>.\<close>

record config =
  uploadDir :: "string option"
  maxFileSize :: nat

text \<open>Truthiness of an optional string: \<open>undefined\<close> and the empty string are falsy.\<close>

definition truthy :: "string option \<Rightarrow> bool" where
  "truthy v = (case v of None \<Rightarrow> False | Some s \<Rightarrow> s \<noteq> [])"

section \<open>Requests, responses and the trace of storage effects\<close>

record upload_file =
  originalname :: string
  mimetype :: string
  file_size :: nat
  buffer :: "byte list"

record request =
  body_envelopeId :: "string option"
  req_file :: "upload_file option"

record upload_json =
  j_id :: string
  j_envelopeId :: jsnum
  j_url :: string
  j_originalName :: string
  j_mimeType :: string
  j_size :: nat
  j_createdAt :: int

datatype body = ErrorBody string | UploadBody upload_json | DeletedBody bool

type_synonym response = "nat \<times> body"

text \<open>
  The storage effects of a handler, in program order. \<open>BlobDeleteRequested\<close> is the
  call \<open>gfsBucket.delete(id, callback)\<close>, \<open>BlobStored\<close> the \<open>finish\<close> of the upload stream,
  \<open>CatalogUpserted\<close> the resolved \<open>findOneAndUpdate\<close>, \<open>CatalogRemoved\<close> a
  \<open>findOneAndDelete\<close> that found a document.
\<close>

datatype event =
    BlobDeleteRequested string
  | BlobStored string
  | CatalogUpserted jsnum string
  | CatalogRemoved jsnum

definition json_of :: "upload_doc \<Rightarrow> upload_json" where
  "json_of d =
     \<lparr>j_id = doc_id d, j_envelopeId = envelopeId d, j_url = url d,
      j_originalName = originalName d, j_mimeType = mimeType d, j_size = doc_size d,
      j_createdAt = createdAt d\<rparr>"

text \<open>The \<open>catch\<close> of a handler: status 500 with \<open>err.message || fallback\<close>.\<close>

definition caught :: "string \<Rightarrow> string \<Rightarrow> response" where
  "caught fallback m = (500, ErrorBody (if m = [] then fallback else m))"

section \<open>Database operations\<close>

text \<open>\<open>ensureDb\<close>, lines 25 to 35.\<close>

definition ensureDb :: "env \<Rightarrow> world \<Rightarrow> string + world" where
  "ensureDb e w =
     (if isConnected w then Inr (w\<lparr>gfsBucket := True\<rparr>)
      else (case connect_err e of
              Some m \<Rightarrow> Inl m
            | None \<Rightarrow> Inr (w\<lparr>isConnected := True, gfsBucket := True\<rparr>)))"

definition findOne :: "jsnum \<Rightarrow> upload_doc list \<Rightarrow> upload_doc option" where
  "findOne k ds = find (\<lambda>d. envelopeId d = k) ds"

fun update_first :: "('a \<Rightarrow> bool) \<Rightarrow> ('a \<Rightarrow> 'a) \<Rightarrow> 'a list \<Rightarrow> 'a list" where
  "update_first P f [] = []"
| "update_first P f (x # xs) = (if P x then f x # xs else x # update_first P f xs)"

fun remove_first :: "('a \<Rightarrow> bool) \<Rightarrow> 'a list \<Rightarrow> 'a list" where
  "remove_first P [] = []"
| "remove_first P (x # xs) = (if P x then xs else x # remove_first P xs)"

text \<open>
  \<open>findOneAndUpdate({envelopeId}, fields, {new: true, upsert: true,
  setDefaultsOnInsert: true})\<close>: the first document with that envelope id gets the six
  fields and keeps \<open>_id\<close> and \<open>createdAt\<close>; without one, a document is inserted. The
  updated or inserted document is returned with the new collection.
\<close>

definition set_fields ::
  "jsnum \<Rightarrow> string \<Rightarrow> string \<Rightarrow> nat \<Rightarrow> string \<Rightarrow> string \<Rightarrow> upload_doc \<Rightarrow> upload_doc" where
  "set_fields k name mime sz fid u d =
     d\<lparr>envelopeId := k, originalName := name, mimeType := mime, doc_size := sz,
       fileId := Some fid, url := u\<rparr>"

definition findOneAndUpdate ::
  "env \<Rightarrow> jsnum \<Rightarrow> (upload_doc \<Rightarrow> upload_doc) \<Rightarrow> upload_doc list
     \<Rightarrow> upload_doc \<times> upload_doc list" where
  "findOneAndUpdate e k upd ds =
     (case findOne k ds of
        Some d \<Rightarrow> (upd d, update_first (\<lambda>x. envelopeId x = k) upd ds)
      | None \<Rightarrow>
          let d = upd \<lparr>doc_id = newDocId e, envelopeId = k, originalName = [],
                       mimeType = [], doc_size = 0, fileId = None, url = [],
                       createdAt = now e\<rparr>
          in (d, ds @ [d]))"

definition findOneAndDelete ::
  "jsnum \<Rightarrow> upload_doc list \<Rightarrow> upload_doc option \<times> upload_doc list" where
  "findOneAndDelete k ds = (findOne k ds, remove_first (\<lambda>d. envelopeId d = k) ds)"

text \<open>
  \<open>gfsBucket.delete(id, callback)\<close> removes the file; on an absent id the driver reports
  to the callback, which ignores it. The removal is applied where it is requested, the
  earliest moment it can take effect.
\<close>

definition bucket_delete :: "string \<Rightarrow> world \<Rightarrow> world" where
  "bucket_delete oid w = w\<lparr>files := (files w)(oid := None)\<rparr>"

text \<open>
  Lines 80 to 86 and 189 to 195: if the document exists and its \<open>fileId\<close> is truthy, the
  file is deleted; an exception of the ObjectId constructor is swallowed.
\<close>

definition delete_blob_of :: "upload_doc option \<Rightarrow> world \<Rightarrow> world \<times> event list" where
  "delete_blob_of doc w =
     (case doc of
        None \<Rightarrow> (w, [])
      | Some d \<Rightarrow>
          (case fileId d of
             None \<Rightarrow> (w, [])
           | Some s \<Rightarrow>
               if s = [] then (w, [])
               else (case ObjectId s of
                       None \<Rightarrow> (w, [])
                     | Some oid \<Rightarrow> (bucket_delete oid w, [BlobDeleteRequested oid]))))"

text \<open>The upload stream, finished: the file with the buffer's bytes is in the bucket.\<close>

definition store_file :: "string \<Rightarrow> jsnum \<Rightarrow> upload_file \<Rightarrow> world \<Rightarrow> world" where
  "store_file fid k f w =
     w\<lparr>files := (files w)(fid \<mapsto>
          \<lparr>filename = originalname f, contentType = mimetype f,
           metadata_envelopeId = k, chunks = buffer f\<rparr>)\<rparr>"

section \<open>The handlers\<close>

subsection \<open>\<open>POST /api/uploads\<close>\<close>

text \<open>
  Lines 63 to 127. A handler returns its response, the state it leaves and the trace of
  its storage effects. The test \<open>!Number.isInteger(envelopeId) || envelopeId < 0\<close> is written as two
  successive tests, as \<open>||\<close> evaluates it. An exception inside \<open>try\<close> keeps the effects
  made before it.
\<close>

definition post_uploads :: "env \<Rightarrow> request \<Rightarrow> world \<Rightarrow> response \<times> world \<times> event list" where
  "post_uploads e req w0 =
     (case ensureDb e w0 of
        Inl m \<Rightarrow> (caught ''Upload failed'' m, w0, [])
      | Inr w1 \<Rightarrow>
          let eid = Number (body_envelopeId req)
          in if \<not> Number_isInteger eid then ((400, ErrorBody ''Invalid envelopeId''), w1, [])
             else if js_lt0 eid then ((400, ErrorBody ''Invalid envelopeId''), w1, [])
             else
               (case req_file req of
                  None \<Rightarrow> ((400, ErrorBody ''No file uploaded''), w1, [])
                | Some f \<Rightarrow>
                    (case findOne_err e of
                       Some m \<Rightarrow> (caught ''Upload failed'' m, w1, [])
                     | None \<Rightarrow>
                         let (w2, t2) = delete_blob_of (findOne eid (uploads w1)) w1
                         in (case upload_err e of
                               Some m \<Rightarrow> (caught ''Upload failed'' m, w2, t2)
                             | None \<Rightarrow>
                                 let fid = newFileId e;
                                     w3 = store_file fid eid f w2;
                                     t3 = t2 @ [BlobStored fid]
                                 in (case upsert_err e of
                                       Some m \<Rightarrow> (caught ''Upload failed'' m, w3, t3)
                                     | None \<Rightarrow>
                                         let (doc, ds) =
                                               findOneAndUpdate e eid
                                                 (set_fields eid (originalname f) (mimetype f)
                                                    (file_size f) fid (''/api/files/'' @ fid))
                                                 (uploads w3)
                                         in ((200, UploadBody (json_of doc)),
                                             w3\<lparr>uploads := ds\<rparr>,
                                             t3 @ [CatalogUpserted eid fid]))))))"

subsection \<open>The middleware in front of it\<close>

text \<open>
  \<open>upload.single('image')\<close> turns the multipart request into \<open>req.body\<close> and
  \<open>req.file\<close>. The parser under it hands over the part's file name without its path
  (what follows the last slash or backslash, and nothing for \<open>.\<close> and \<open>..\<close>) and the part's
  media type in lower case; a part whose file name is then empty is not taken as a file.
  The file filter is the one of lines 40 to 46. With memory storage the file's \<open>size\<close>
  is the length of its buffer. Whether the size limit fired is the library's verdict on
  \<open>maxFileSize\<close> and is given with the part.
\<close>

record image_part =
  part_filename :: string
  part_mimetype :: string
  part_data :: "byte list"
  limit_exceeded :: bool

record multipart =
  field_envelopeId :: "string option"
  image :: "image_part option"

datatype middleware_error = LIMIT_FILE_SIZE | Error string

definition fileFilter :: "string \<Rightarrow> middleware_error option" where
  "fileFilter mt =
     (if mt = [] then Some (Error ''Only image uploads are allowed'')
      else if take 6 mt = ''image/'' then None
      else Some (Error ''Only image uploads are allowed''))"

definition basename :: "string \<Rightarrow> string" where
  "basename p =
     (let s = rev (takeWhile (\<lambda>c. c \<noteq> CHR ''/'' \<and> c \<noteq> CHR 0x5C) (rev p))
      in if s = ''.'' then [] else if s = ''..'' then [] else s)"

text \<open>\<open>toLowerCase\<close> on code units below 256: the letters A to Z, and U+00C0 to U+00DE
  but for the multiplication sign U+00D7, move up by 32.\<close>

definition lower_char :: "char \<Rightarrow> char" where
  "lower_char c =
     (let n = (of_char c :: int)
      in if 65 \<le> n \<and> n \<le> 90 then char_of (n + 32)
         else if 192 \<le> n \<and> n \<le> 222 \<and> n \<noteq> 215 then char_of (n + 32)
         else c)"

definition toLowerCase :: "string \<Rightarrow> string" where
  "toLowerCase s = map lower_char s"

definition upload_single :: "multipart \<Rightarrow> middleware_error + request" where
  "upload_single mp =
     (case image mp of
        None \<Rightarrow> Inr \<lparr>body_envelopeId = field_envelopeId mp, req_file = None\<rparr>
      | Some p \<Rightarrow>
          let name = basename (part_filename p);
              mt = toLowerCase (part_mimetype p)
          in if name = [] then Inr \<lparr>body_envelopeId = field_envelopeId mp, req_file = None\<rparr>
             else
               (case fileFilter mt of
                  Some err \<Rightarrow> Inl err
                | None \<Rightarrow>
                    if limit_exceeded p then Inl LIMIT_FILE_SIZE
                    else Inr \<lparr>body_envelopeId = field_envelopeId mp,
                              req_file = Some \<lparr>originalname = name, mimetype = mt,
                                               file_size = length (part_data p),
                                               buffer = part_data p\<rparr>\<rparr>))"

fun show_nat :: "nat \<Rightarrow> string" where
  "show_nat n =
     (if n < 10 then [char_of (48 + n)]
      else show_nat (n div 10) @ [char_of (48 + n mod 10)])"

text \<open>The error middleware of lines 238 to 244.\<close>

definition error_middleware :: "config \<Rightarrow> middleware_error \<Rightarrow> response" where
  "error_middleware cfg err =
     (case err of
        LIMIT_FILE_SIZE \<Rightarrow>
          (413, ErrorBody (''File too large. MAX_FILE_SIZE='' @ show_nat (maxFileSize cfg)))
      | Error m \<Rightarrow> (400, ErrorBody (if m = [] then ''Bad Request'' else m)))"

text \<open>
  \<open>put(envelopeId, byteStream, displayName, contentType)\<close> of the spec is the route as a
  whole: the middleware, then the handler. The display name and the content type are the
  file name and the media type of the multipart part as the client sent them.
\<close>

definition app_post_uploads ::
  "config \<Rightarrow> env \<Rightarrow> multipart \<Rightarrow> world \<Rightarrow> response \<times> world \<times> event list" where
  "app_post_uploads cfg e mp w =
     (case upload_single mp of
        Inl err \<Rightarrow> (error_middleware cfg err, w, [])
      | Inr req \<Rightarrow> post_uploads e req w)"

definition put ::
  "config \<Rightarrow> env \<Rightarrow> string \<Rightarrow> byte list \<Rightarrow> string \<Rightarrow> string \<Rightarrow> world
     \<Rightarrow> response \<times> world \<times> event list" where
  "put cfg e envelope_id bytes display_name content_type w =
     app_post_uploads cfg e
       \<lparr>field_envelopeId = Some envelope_id,
        image = Some \<lparr>part_filename = display_name, part_mimetype = content_type,
                      part_data = bytes, limit_exceeded = False\<rparr>\<rparr> w"

subsection \<open>\<open>GET /api/uploads\<close> and \<open>GET /api/envelopes\<close>\<close>

text \<open>
  Lines 129 to 148 and 150 to 172. Neither handler has a \<open>try\<close>: a rejected database
  call leaves the handler without a response, written \<open>Inl\<close>. The sort of the database is modelled by a stable sort on
  the negated key; the order the database gives documents of equal \<open>createdAt\<close> is not
  specified by it.
\<close>

definition listed :: "config \<Rightarrow> upload_doc \<Rightarrow> bool" where
  "listed cfg d = (if truthy (uploadDir cfg) then True else truthy (fileId d))"

definition get_uploads :: "config \<Rightarrow> env \<Rightarrow> world \<Rightarrow> (string + upload_json list) \<times> world" where
  "get_uploads cfg e w0 =
     (case ensureDb e w0 of
        Inl m \<Rightarrow> (Inl m, w0)
      | Inr w1 \<Rightarrow>
          (case find_err e of
             Some m \<Rightarrow> (Inl m, w1)
           | None \<Rightarrow>
               let docs = take 200 (sort_key (\<lambda>d. - createdAt d) (uploads w1))
               in (Inr (map json_of (filter (listed cfg) docs)), w1)))"

definition byEnvelopeId_step ::
  "config \<Rightarrow> (jsnum \<rightharpoonup> upload_json) \<Rightarrow> upload_doc \<Rightarrow> (jsnum \<rightharpoonup> upload_json)" where
  "byEnvelopeId_step cfg m d =
     (if \<not> Number_isInteger (envelopeId d) then m
      else if js_lt0 (envelopeId d) then m
      else if listed cfg d then m(envelopeId d \<mapsto> json_of d)
      else m)"

definition get_envelopes ::
  "config \<Rightarrow> env \<Rightarrow> world \<Rightarrow> (string + (jsnum \<rightharpoonup> upload_json)) \<times> world" where
  "get_envelopes cfg e w0 =
     (case ensureDb e w0 of
        Inl m \<Rightarrow> (Inl m, w0)
      | Inr w1 \<Rightarrow>
          (case find_err e of
             Some m \<Rightarrow> (Inl m, w1)
           | None \<Rightarrow> (Inr (foldl (byEnvelopeId_step cfg) Map.empty (uploads w1)), w1)))"

subsection \<open>\<open>DELETE /api/envelopes/:envelopeId\<close>\<close>

text \<open>
  Lines 174 to 201. The document is removed from the catalog first; the deletion of its
  file is requested after.
\<close>

definition delete_envelope :: "env \<Rightarrow> string \<Rightarrow> world \<Rightarrow> response \<times> world \<times> event list" where
  "delete_envelope e param w0 =
     (case ensureDb e w0 of
        Inl m \<Rightarrow> (caught ''Delete failed'' m, w0, [])
      | Inr w1 \<Rightarrow>
          let eid = Number (Some param)
          in if \<not> Number_isInteger eid then ((400, ErrorBody ''Invalid envelopeId''), w1, [])
             else if js_lt0 eid then ((400, ErrorBody ''Invalid envelopeId''), w1, [])
             else
               (case remove_err e of
                  Some m \<Rightarrow> (caught ''Delete failed'' m, w1, [])
                | None \<Rightarrow>
                    let (doc, ds) = findOneAndDelete eid (uploads w1)
                    in (case doc of
                          None \<Rightarrow> ((200, DeletedBody False), w1, [])
                        | Some d \<Rightarrow>
                            let w2 = w1\<lparr>uploads := ds\<rparr>;
                                (w3, t3) = delete_blob_of (Some d) w2
                            in ((200, DeletedBody True), w3, CatalogRemoved eid # t3))))"

subsection \<open>\<open>GET /api/files/:id\<close>\<close>

text \<open>
  Lines 203 to 236. The response either ends with a status and a text, or streams a
  file's bytes with the \<open>Content-Type\<close> header, if the file has a content type, and the cache directive.
\<close>

datatype file_response =
    Ended nat string
  | Streamed "string option" string "byte list"

definition get_file :: "env \<Rightarrow> string \<Rightarrow> world \<Rightarrow> file_response \<times> world" where
  "get_file e ident w0 =
     (case ensureDb e w0 of
        Inl m \<Rightarrow> (Ended 400 ''Bad request'', w0)
      | Inr w1 \<Rightarrow>
          if ident = [] then (Ended 400 ''Missing id'', w1)
          else
            (case ObjectId ident of
               None \<Rightarrow> (Ended 400 ''Bad request'', w1)
             | Some oid \<Rightarrow>
                 (case find_err e of
                    Some m \<Rightarrow> (Ended 400 ''Bad request'', w1)
                  | None \<Rightarrow>
                      (case files w1 oid of
                         None \<Rightarrow> (Ended 404 ''Not found'', w1)
                       | Some f \<Rightarrow>
                           if download_err e then (Ended 404 ''Not found'', w1)
                           else (Streamed (if contentType f = [] then None
                                           else Some (contentType f))
                                   ''public, max-age=31536000, immutable''
                                   (chunks f), w1)))))"

section \<open>Notions of the specification\<close>

text \<open>
  The spec's "non-negative integer", said of the number an envelope id denotes: a finite
  value that is whole and not below zero.
\<close>

definition is_nonneg_integer :: "jsnum \<Rightarrow> bool" where
  "is_nonneg_integer v = (case v of Fin r \<Rightarrow> 0 \<le> r \<and> r = of_int \<lfloor>r\<rfloor> | _ \<Rightarrow> False)"

text \<open>
  The same said of the field as the client sends it: a string of decimal digits, at least
  one.
\<close>

definition is_nonneg_integer_literal :: "string option \<Rightarrow> bool" where
  "is_nonneg_integer_literal v =
     (case v of None \<Rightarrow> False | Some s \<Rightarrow> s \<noteq> [] \<and> list_all is_digit s)"

text \<open>The database answers: the connection is there or can be made.\<close>

definition connects :: "env \<Rightarrow> world \<Rightarrow> bool" where
  "connects e w = (isConnected w \<or> connect_err e = None)"

text \<open>Invariant I1 of the spec: no two documents of the catalog have the same envelope id.\<close>

definition I1 :: "world \<Rightarrow> bool" where
  "I1 w = distinct (map envelopeId (uploads w))"

definition is_upsert :: "event \<Rightarrow> bool" where
  "is_upsert ev = (case ev of CatalogUpserted _ _ \<Rightarrow> True | _ \<Rightarrow> False)"

text \<open>
  The ordering the spec asks of a trace (I3): no deletion request comes before the first
  commit of the catalog, an upsert or a removal.
\<close>

fun deletes_follow_commit :: "event list \<Rightarrow> bool" where
  "deletes_follow_commit [] = True"
| "deletes_follow_commit (BlobDeleteRequested _ # _) = False"
| "deletes_follow_commit (CatalogUpserted _ _ # _) = True"
| "deletes_follow_commit (CatalogRemoved _ # _) = True"
| "deletes_follow_commit (BlobStored _ # t) = deletes_follow_commit t"

text \<open>
  The file a document's \<open>fileId\<close> refers to, and I2 as a state property: a document
  with a truthy \<open>fileId\<close> has its file in the bucket.
\<close>

definition blob_of :: "world \<Rightarrow> upload_doc \<Rightarrow> gridfile option" where
  "blob_of w d =
     (case fileId d of
        None \<Rightarrow> None
      | Some s \<Rightarrow> (case ObjectId s of None \<Rightarrow> None | Some oid \<Rightarrow> files w oid))"

definition dangling :: "world \<Rightarrow> upload_doc \<Rightarrow> bool" where
  "dangling w d = (truthy (fileId d) \<and> blob_of w d = None)"

text \<open>
  \<open>get(envelopeId)\<close> of the spec, as a client has it: the entry under that envelope id in
  the answer of \<open>GET /api/envelopes\<close>. \<open>readBlob\<close> follows an entry's \<open>url\<close>: the route
  \<open>/api/files/:id\<close> takes what comes after the prefix as \<open>id\<close>.
\<close>

definition get :: "config \<Rightarrow> env \<Rightarrow> world \<Rightarrow> jsnum \<Rightarrow> upload_json option" where
  "get cfg e w k = (case fst (get_envelopes cfg e w) of Inl _ \<Rightarrow> None | Inr m \<Rightarrow> m k)"

definition readBlob :: "env \<Rightarrow> world \<Rightarrow> string \<Rightarrow> file_response" where
  "readBlob e w u = fst (get_file e (drop (length ''/api/files/'') u) w)"

section \<open>Example inputs\<close>

definition world0 :: world where
  "world0 = \<lparr>isConnected = False, gfsBucket = False, uploads = [], files = Map.empty\<rparr>"

definition env1 :: env where
  "env1 = \<lparr>connect_err = None, findOne_err = None, upload_err = None, upsert_err = None,
            remove_err = None, find_err = None, download_err = False,
            newFileId = ''65a1f0c2d4e5b6a7c8d9e0f1'', newDocId = ''65a1f0c2d4e5b6a7c8d9e0aa'',
            now = 1700000000000\<rparr>"

definition env2 :: env where
  "env2 = env1\<lparr>newFileId := ''65a1f0c2d4e5b6a7c8d9e0f2'',
               newDocId := ''65a1f0c2d4e5b6a7c8d9e0ab'', now := 1700000060000\<rparr>"

definition env_upload_fails :: env where
  "env_upload_fails = env2\<lparr>upload_err := Some ''stream destroyed''\<rparr>"

definition env_upsert_fails :: env where
  "env_upsert_fails = env2\<lparr>upsert_err := Some ''catalog unavailable''\<rparr>"

definition cfg0 :: config where
  "cfg0 = \<lparr>uploadDir = None, maxFileSize = 10485760\<rparr>"

definition cat_bytes :: "byte list" where
  "cat_bytes = [0x89, 0x50, 0x4E]"

definition dog_bytes :: "byte list" where
  "dog_bytes = [0x47, 0x49]"

definition png :: upload_file where
  "png = \<lparr>originalname = ''cat.png'', mimetype = ''image/png'', file_size = 3,
           buffer = cat_bytes\<rparr>"

text \<open>
  The state after \<open>put(7, <3 bytes>, "cat.png", "image/png")\<close> on the empty store
  (lemma \<open>put_world0\<close> below): one document, one file.
\<close>

definition doc1 :: upload_doc where
  "doc1 = \<lparr>doc_id = ''65a1f0c2d4e5b6a7c8d9e0aa'', envelopeId = Fin 7,
            originalName = ''cat.png'', mimeType = ''image/png'', doc_size = 3,
            fileId = Some ''65a1f0c2d4e5b6a7c8d9e0f1'',
            url = ''/api/files/65a1f0c2d4e5b6a7c8d9e0f1'', createdAt = 1700000000000\<rparr>"

definition world1 :: world where
  "world1 =
     \<lparr>isConnected = True, gfsBucket = True, uploads = [doc1],
      files = [''65a1f0c2d4e5b6a7c8d9e0f1'' \<mapsto>
                 \<lparr>filename = ''cat.png'', contentType = ''image/png'',
                  metadata_envelopeId = Fin 7, chunks = cat_bytes\<rparr>]\<rparr>"

text \<open>
  The state after a further \<open>put(3, <2 bytes>, "dog.gif", "image/gif")\<close> (lemma
  \<open>put_world1\<close> below).
\<close>

definition doc2 :: upload_doc where
  "doc2 = \<lparr>doc_id = ''65a1f0c2d4e5b6a7c8d9e0ab'', envelopeId = Fin 3,
            originalName = ''dog.gif'', mimeType = ''image/gif'', doc_size = 2,
            fileId = Some ''65a1f0c2d4e5b6a7c8d9e0f2'',
            url = ''/api/files/65a1f0c2d4e5b6a7c8d9e0f2'', createdAt = 1700000060000\<rparr>"

definition world2 :: world where
  "world2 =
     \<lparr>isConnected = True, gfsBucket = True, uploads = [doc1, doc2],
      files = [''65a1f0c2d4e5b6a7c8d9e0f1'' \<mapsto>
                 \<lparr>filename = ''cat.png'', contentType = ''image/png'',
                  metadata_envelopeId = Fin 7, chunks = cat_bytes\<rparr>,
               ''65a1f0c2d4e5b6a7c8d9e0f2'' \<mapsto>
                 \<lparr>filename = ''dog.gif'', contentType = ''image/gif'',
                  metadata_envelopeId = Fin 3, chunks = dog_bytes\<rparr>]\<rparr>"



text \<open>The document an upload for envelope 0 inserts into the empty store.\<close>

definition doc0 :: upload_doc where
  "doc0 = doc1\<lparr>envelopeId := Fin 0\<rparr>"

section \<open>Reachable states\<close>

text \<open>
  The states the server can be in: the empty store, and what any of the five routes
  leaves, whatever the request and whatever the database calls do.
\<close>

inductive reachable :: "world \<Rightarrow> bool" where
  initial: "reachable world0"
| after_post: "reachable w \<Longrightarrow> app_post_uploads cfg e mp w = (r, w', t) \<Longrightarrow> reachable w'"
| after_delete: "reachable w \<Longrightarrow> delete_envelope e param w = (r, w', t) \<Longrightarrow> reachable w'"
| after_get_uploads: "reachable w \<Longrightarrow> get_uploads cfg e w = (js, w') \<Longrightarrow> reachable w'"
| after_get_envelopes: "reachable w \<Longrightarrow> get_envelopes cfg e w = (m, w') \<Longrightarrow> reachable w'"
| after_get_file: "reachable w \<Longrightarrow> get_file e ident w = (fr, w') \<Longrightarrow> reachable w'"

section \<open>Basic facts\<close>

subsection \<open>Whole numbers below \<open>2 ^ 53\<close> are doubles\<close>

lemma ilog2_bounds:
  "1 \<le> n \<Longrightarrow> 0 \<le> ilog2 n \<and> 2 ^ nat (ilog2 n) \<le> n \<and> n < 2 ^ nat (ilog2 n + 1)"
proof (induction n rule: ilog2.induct)
  case (1 n)
  show ?case
  proof (cases "n \<le> 1")
    case True
    with "1.prems" have "n = 1" by simp
    then show ?thesis by (simp add: ilog2.simps)
  next
    case False
    then have h: "1 \<le> n div 2" by simp
    from "1.IH" [OF False h] have ih: "0 \<le> ilog2 (n div 2)"
      "2 ^ nat (ilog2 (n div 2)) \<le> n div 2" "n div 2 < 2 ^ nat (ilog2 (n div 2) + 1)"
      by simp_all
    have eq: "ilog2 n = 1 + ilog2 (n div 2)" using False by (subst ilog2.simps) simp
    have n1: "nat (ilog2 n) = Suc (nat (ilog2 (n div 2)))" using ih(1) eq by simp
    have n2: "nat (ilog2 n + 1) = Suc (nat (ilog2 (n div 2) + 1))" using ih(1) eq by simp
    have n3: "nat (ilog2 (n div 2) + 1) = Suc (nat (ilog2 (n div 2)))" using ih(1) by simp
    from ih(2) have a: "2 ^ nat (ilog2 n) \<le> n" unfolding n1 by simp
    from ih(3) have b: "n < 2 ^ nat (ilog2 n + 1)" unfolding n2 n3 by simp
    from a b ih(1) eq show ?thesis by simp
  qed
qed

lemma round_half_even_of_int: "round_half_even (of_int z) = z"
  by (simp add: round_half_even_def)

lemma to_double_pos_int:
  assumes m1: "1 \<le> m" and m2: "m < 2 ^ 53"
  shows "to_double (of_int m) = Fin (of_int m)"
proof -
  define e where "e = ilog2 m"
  from ilog2_bounds [OF m1] have e0: "0 \<le> e" and lo: "2 ^ nat e \<le> m"
    by (simp_all add: e_def)
  from lo m2 have "(2::int) ^ nat e < 2 ^ 53" by linarith
  then have "nat e < 53" by (rule power_less_imp_less_exp [rotated]) simp
  with e0 have e52: "e \<le> 52" by simp
  define j where "j = nat (52 - e)"
  have abs: "\<bar>rat_of_int m\<bar> = of_int m" using m1 by simp
  have fl: "floor_log2 (of_int m) = e"
    using m1 by (simp add: floor_log2_def e_def)
  have mx: "max e (- 1022) = e" using e0 by simp
  have ulp: "pow2 (e - 52) = 1 / 2 ^ j"
    using e52 by (cases "e = 52") (simp_all add: pow2_def j_def)
  have q: "rat_of_int m / (1 / 2 ^ j) = of_int (m * 2 ^ j)" by simp
  have v: "rat_of_int (round_half_even (rat_of_int m / (1 / 2 ^ j))) * (1 / 2 ^ j) = of_int m"
    unfolding q round_half_even_of_int by simp
  have "rat_of_int m < 2 ^ 53" using m2 by (metis of_int_less_iff of_int_numeral of_int_power)
  also have "(2::rat) ^ 53 \<le> 2 ^ 1024" by (rule power_increasing) simp_all
  finally have big: "\<not> pow2 1024 \<le> rat_of_int m" by (simp add: pow2_def)
  have nz: "rat_of_int m \<noteq> 0" "\<not> rat_of_int m < 0" using m1 by simp_all
  show ?thesis
    unfolding to_double_def Let_def abs fl mx ulp v using nz big by simp
qed

lemma to_double_minus:
  "to_double (- x) =
     (case to_double x of Fin v \<Rightarrow> Fin (- v) | PosInf \<Rightarrow> NegInf | NegInf \<Rightarrow> PosInf | NaN \<Rightarrow> NaN)"
  by (cases "x = 0"; cases "x < 0") (auto simp: to_double_def Let_def)

lemma to_double_of_int:
  assumes "\<bar>n\<bar> < 2 ^ 53"
  shows "to_double (of_int n) = Fin (of_int n)"
proof -
  consider "n = 0" | "1 \<le> n" | "1 \<le> - n" by linarith
  then show ?thesis
  proof cases
    case 1
    then show ?thesis by (simp add: to_double_def)
  next
    case 2
    with assms show ?thesis by (simp add: to_double_pos_int)
  next
    case 3
    with assms have "to_double (of_int (- n)) = Fin (of_int (- n))"
      by (intro to_double_pos_int) simp_all
    then show ?thesis
      using to_double_minus [of "of_int (- n)"] by simp
  qed
qed

lemma to_double_numeral [simp]:
  "(numeral k :: int) < 2 ^ 53 \<Longrightarrow> to_double (numeral k) = Fin (numeral k)"
  using to_double_of_int [of "numeral k"] by simp

lemma to_double_neg_numeral [simp]:
  "(numeral k :: int) < 2 ^ 53 \<Longrightarrow> to_double (- numeral k) = Fin (- numeral k)"
  using to_double_of_int [of "- numeral k"] by simp

lemma to_double_0 [simp]: "to_double 0 = Fin 0"
  by (simp add: to_double_def)

lemma to_double_1 [simp]: "to_double 1 = Fin 1"
  using to_double_of_int [of 1] by simp

lemma to_double_neg_1 [simp]: "to_double (- 1) = Fin (- 1)"
  using to_double_of_int [of "- 1"] by simp

text \<open>The definitions that evaluate the parser on a given string.\<close>

lemmas Number_eval = Number_def StringToNumber_def trim_def is_ws_def str_decimal_def unsigned_decimal_def is_digit_def exponent_part_def digits_val_def digit_val_def Let_def radix_literal_def

lemma trim_whitespace:
  assumes "list_all is_ws s"
  shows "trim s = []"
  using assms by (auto simp: trim_def list_all_iff dest: set_dropWhileD)

lemma Number_whitespace: "list_all is_ws s \<Longrightarrow> Number (Some s) = Fin 0"
  by (simp add: Number_def StringToNumber_def trim_whitespace)

subsection \<open>The database operations\<close>

lemma ensureDb_Inr:
  "ensureDb e w = Inr w1 \<Longrightarrow>
     uploads w1 = uploads w \<and> files w1 = files w \<and> isConnected w1 \<and> gfsBucket w1"
  by (auto simp: ensureDb_def split: if_splits option.splits)

lemma ensureDb_connects:
  "connects e w \<Longrightarrow> ensureDb e w = Inr (w\<lparr>isConnected := True, gfsBucket := True\<rparr>)"
  by (cases w) (auto simp: ensureDb_def connects_def)

lemma ensureDb_Inl: "ensureDb e w = Inl m \<Longrightarrow> \<not> connects e w"
  by (auto simp: ensureDb_def connects_def split: if_splits option.splits)

lemma is_nonneg_integer_iff:
  "is_nonneg_integer v \<longleftrightarrow> Number_isInteger v \<and> \<not> js_lt0 v"
  by (cases v) (auto simp: is_nonneg_integer_def Number_isInteger_def js_lt0_def)

lemma delete_blob_of_keeps:
  "delete_blob_of d w = (w', t) \<Longrightarrow>
     uploads w' = uploads w \<and> isConnected w' = isConnected w \<and> gfsBucket w' = gfsBucket w"
  by (auto simp: delete_blob_of_def bucket_delete_def split: option.splits if_splits)

subsection \<open>The catalog under upsert and removal\<close>

lemma find_update_first:
  assumes "\<And>x. P (f x)"
  shows "find P (update_first P f xs) = map_option f (find P xs)"
  using assms by (induction xs) auto

lemma find_snoc_None:
  "find P xs = None \<Longrightarrow> find P (xs @ [d]) = (if P d then Some d else None)"
  by (induction xs) (auto split: if_splits)

lemma findOne_Some:
  "findOne k ds = Some d \<Longrightarrow> d \<in> set ds \<and> envelopeId d = k"
  unfolding findOne_def by (induction ds) (auto split: if_splits)

lemma findOne_None:
  "findOne k ds = None \<Longrightarrow> k \<notin> set (map envelopeId ds)"
  unfolding findOne_def by (induction ds) (auto split: if_splits)

lemma findOne_after_upsert:
  assumes "\<And>d. envelopeId (upd d) = k"
  shows "findOne k (snd (findOneAndUpdate e k upd ds)) = Some (fst (findOneAndUpdate e k upd ds))"
proof (cases "findOne k ds")
  case None
  then have "find (\<lambda>d. envelopeId d = k) ds = None" by (simp add: findOne_def)
  from find_snoc_None [OF this] None assms show ?thesis
    by (simp add: findOneAndUpdate_def findOne_def Let_def)
next
  case (Some d)
  with assms show ?thesis
    by (simp add: findOneAndUpdate_def findOne_def find_update_first)
qed

lemma map_envelopeId_update_first:
  assumes "\<And>d. envelopeId (upd d) = k"
  shows "map envelopeId (update_first (\<lambda>x. envelopeId x = k) upd ds) = map envelopeId ds"
  using assms by (induction ds) auto

lemma distinct_after_upsert:
  assumes "\<And>d. envelopeId (upd d) = k" and "distinct (map envelopeId ds)"
  shows "distinct (map envelopeId (snd (findOneAndUpdate e k upd ds)))"
proof (cases "findOne k ds")
  case None
  from findOne_None [OF None] assms show ?thesis
    by (simp add: findOneAndUpdate_def None Let_def)
next
  case (Some d)
  with assms show ?thesis
    by (simp add: findOneAndUpdate_def map_envelopeId_update_first)
qed

lemma set_remove_first: "set (remove_first P xs) \<subseteq> set xs"
  by (induction xs) auto

lemma distinct_remove_first:
  "distinct (map f xs) \<Longrightarrow> distinct (map f (remove_first P xs))"
proof (induction xs)
  case Nil
  then show ?case by simp
next
  case (Cons x xs)
  then show ?case using set_remove_first [of P xs] by auto
qed

lemma set_fields_envelopeId [simp]: "envelopeId (set_fields k n m s fid u d) = k"
  by (simp add: set_fields_def)

text \<open>The successful run of the upload handler, in closed form.\<close>

lemma post_uploads_ok:
  assumes "connects e w"
    and "is_nonneg_integer (Number (body_envelopeId req))"
    and "req_file req = Some f"
    and "findOne_err e = None" and "upload_err e = None" and "upsert_err e = None"
  shows "post_uploads e req w =
     (let eid = Number (body_envelopeId req);
          fid = newFileId e;
          del = delete_blob_of (findOne eid (uploads w)) (w\<lparr>isConnected := True, gfsBucket := True\<rparr>);
          ups = findOneAndUpdate e eid
                  (set_fields eid (originalname f) (mimetype f) (file_size f) fid
                     (''/api/files/'' @ fid)) (uploads w)
      in ((200, UploadBody (json_of (fst ups))),
          (store_file fid eid f (fst del))\<lparr>uploads := snd ups\<rparr>,
          snd del @ [BlobStored fid, CatalogUpserted eid fid]))"
proof -
  obtain w2 t2 where d: "delete_blob_of (findOne (Number (body_envelopeId req)) (uploads w))
       (w\<lparr>isConnected := True, gfsBucket := True\<rparr>) = (w2, t2)"
    by (cases "delete_blob_of (findOne (Number (body_envelopeId req)) (uploads w))
       (w\<lparr>isConnected := True, gfsBucket := True\<rparr>)")
  from delete_blob_of_keeps [OF d] have u: "uploads w2 = uploads w" by simp
  from assms d u ensureDb_connects [OF assms(1)] show ?thesis
    by (simp add: post_uploads_def is_nonneg_integer_iff Let_def store_file_def
          split: prod.splits)
qed

lemma post_uploads_200:
  assumes "post_uploads e req w = ((200, b), w', t)"
  shows "connects e w \<and> is_nonneg_integer (Number (body_envelopeId req))
       \<and> (\<exists>f. req_file req = Some f)
       \<and> findOne_err e = None \<and> upload_err e = None \<and> upsert_err e = None"
proof (cases "ensureDb e w")
  case (Inl m)
  with assms show ?thesis by (simp add: post_uploads_def caught_def)
next
  case (Inr w1)
  from ensureDb_Inr [OF Inr] Inr have c: "connects e w"
    by (auto simp: ensureDb_def connects_def split: if_splits option.splits)
  from assms Inr have "is_nonneg_integer (Number (body_envelopeId req))
       \<and> (\<exists>f. req_file req = Some f)
       \<and> findOne_err e = None \<and> upload_err e = None \<and> upsert_err e = None"
    by (auto simp: post_uploads_def caught_def is_nonneg_integer_iff Let_def
        split: if_splits option.splits prod.splits)
  with c show ?thesis by simp
qed


lemma foldl_byEnvelopeId_other:
  "k \<notin> set (map envelopeId ds) \<Longrightarrow> foldl (byEnvelopeId_step cfg) m ds k = m k"
  by (induction ds arbitrary: m) (auto simp: byEnvelopeId_step_def)

lemma foldl_byEnvelopeId_lookup:
  assumes "distinct (map envelopeId ds)" and "d \<in> set ds"
    and "is_nonneg_integer (envelopeId d)" and "listed cfg d"
  shows "foldl (byEnvelopeId_step cfg) m ds (envelopeId d) = Some (json_of d)"
  using assms
proof (induction ds arbitrary: m)
  case Nil
  then show ?case by simp
next
  case (Cons x xs)
  show ?case
  proof (cases "d = x")
    case True
    with Cons.prems have nk: "envelopeId x \<notin> set (map envelopeId xs)" by auto
    have st: "byEnvelopeId_step cfg m x = m(envelopeId x \<mapsto> json_of x)"
      using True Cons.prems(3,4) by (simp add: byEnvelopeId_step_def is_nonneg_integer_iff)
    from foldl_byEnvelopeId_other [OF nk, of cfg "m(envelopeId x \<mapsto> json_of x)"] True st
    show ?thesis by simp
  next
    case False
    with Cons.prems have "distinct (map envelopeId xs)" "d \<in> set xs" by auto
    from Cons.IH [OF this Cons.prems(3,4)] show ?thesis by simp
  qed
qed

lemma ObjectId_nonempty: "ObjectId s = Some s' \<Longrightarrow> s \<noteq> []"
  by (auto simp: ObjectId_def split: if_splits)

lemma error_middleware_not_200: "fst (error_middleware cfg err) \<noteq> 200"
  by (cases err) (simp_all add: error_middleware_def)

lemma post_uploads_not_200:
  assumes "post_uploads e req w = (r, w', t)" and "fst r \<noteq> 200"
  shows "uploads w' = uploads w"
proof (cases "ensureDb e w")
  case (Inl m)
  with assms show ?thesis by (simp add: post_uploads_def)
next
  case (Inr w1)
  obtain w2 t2 where d: "delete_blob_of (findOne (Number (body_envelopeId req)) (uploads w1)) w1
       = (w2, t2)"
    by (cases "delete_blob_of (findOne (Number (body_envelopeId req)) (uploads w1)) w1")
  from delete_blob_of_keeps [OF d] ensureDb_Inr [OF Inr] have "uploads w2 = uploads w" by simp
  with assms Inr d ensureDb_Inr [OF Inr] show ?thesis
    by (auto simp: post_uploads_def Let_def store_file_def
        split: if_splits option.splits prod.splits)
qed

text \<open>I1 holds of the empty store and is kept by the two handlers that write.\<close>

lemma I1_world0: "I1 world0"
  by (simp add: I1_def world0_def)

lemma post_uploads_keeps_I1:
  assumes "I1 w" and "post_uploads e req w = (r, w', t)"
  shows "I1 w'"
proof (cases "fst r = 200")
  case False
  from post_uploads_not_200 [OF assms(2) False] assms(1) show ?thesis by (simp add: I1_def)
next
  case True
  then obtain b where r: "r = (200, b)" by (cases r) simp
  from assms(2) have run: "post_uploads e req w = ((200, b), w', t)" by (simp add: r)
  from post_uploads_200 [OF run] obtain f where pre:
    "connects e w" "is_nonneg_integer (Number (body_envelopeId req))" "req_file req = Some f"
    "findOne_err e = None" "upload_err e = None" "upsert_err e = None"
    by blast
  from post_uploads_ok [OF pre] run
  have "uploads w' = snd (findOneAndUpdate e (Number (body_envelopeId req))
          (set_fields (Number (body_envelopeId req)) (originalname f) (mimetype f)
             (file_size f) (newFileId e) (''/api/files/'' @ newFileId e)) (uploads w))"
    by (auto simp: Let_def)
  with assms(1) show ?thesis
    by (simp add: I1_def distinct_after_upsert)
qed

lemma delete_envelope_keeps_I1:
  assumes "I1 w" and "delete_envelope e param w = (r, w', t)"
  shows "I1 w'"
proof (cases "ensureDb e w")
  case (Inl m)
  with assms show ?thesis by (simp add: delete_envelope_def)
next
  case (Inr w1)
  have k: "\<And>d v v' tr. delete_blob_of d v = (v', tr) \<Longrightarrow> uploads v' = uploads v"
    using delete_blob_of_keeps by blast
  from assms(1) have "distinct (map envelopeId
      (remove_first (\<lambda>d. envelopeId d = Number (Some param)) (uploads w)))"
    unfolding I1_def by (rule distinct_remove_first)
  with assms Inr ensureDb_Inr [OF Inr] show ?thesis
    by (auto simp: delete_envelope_def I1_def Let_def findOneAndDelete_def
        split: if_splits option.splits prod.splits dest!: k)
qed

lemma app_post_uploads_keeps_I1:
  assumes "I1 w" and "app_post_uploads cfg e mp w = (r, w', t)"
  shows "I1 w'"
  using assms post_uploads_keeps_I1
  by (auto simp: app_post_uploads_def split: sum.splits)

lemma get_uploads_keeps_uploads: "get_uploads cfg e w = (js, w') \<Longrightarrow> uploads w' = uploads w"
  by (auto simp: get_uploads_def Let_def split: sum.splits option.splits dest: ensureDb_Inr)

lemma get_envelopes_keeps_uploads: "get_envelopes cfg e w = (m, w') \<Longrightarrow> uploads w' = uploads w"
  by (auto simp: get_envelopes_def split: sum.splits option.splits dest: ensureDb_Inr)

lemma get_file_keeps_uploads: "get_file e ident w = (fr, w') \<Longrightarrow> uploads w' = uploads w"
  by (auto simp: get_file_def split: sum.splits option.splits if_splits dest: ensureDb_Inr)

lemma reachable_I1: "reachable w \<Longrightarrow> I1 w"
proof (induction rule: reachable.induct)
  case initial
  show ?case by (rule I1_world0)
next
  case (after_post w cfg e mp r w' t)
  then show ?case using app_post_uploads_keeps_I1 by blast
next
  case (after_delete w e param r w' t)
  then show ?case using delete_envelope_keeps_I1 by blast
next
  case (after_get_uploads w cfg e js w')
  then show ?case using get_uploads_keeps_uploads [of cfg e w js w'] by (simp add: I1_def)
next
  case (after_get_envelopes w cfg e m w')
  then show ?case using get_envelopes_keeps_uploads [of cfg e w m w'] by (simp add: I1_def)
next
  case (after_get_file w e ident fr w')
  then show ?case using get_file_keeps_uploads [of e ident w fr w'] by (simp add: I1_def)
qed

text \<open>
  Whenever the envelope already has a document with a file, the upload handler's trace
  begins with the request to delete that file, whatever happens to the upload after.
\<close>

lemma post_uploads_deletes_first:
  assumes "connects e w"
    and "is_nonneg_integer (Number (body_envelopeId req))"
    and "req_file req = Some f" and "findOne_err e = None"
    and "findOne (Number (body_envelopeId req)) (uploads w) = Some d"
    and "fileId d = Some s" and "ObjectId s = Some oid"
  shows "\<exists>rest. snd (snd (post_uploads e req w)) = BlobDeleteRequested oid # rest"
  using assms ensureDb_connects [OF assms(1)] ObjectId_nonempty [OF assms(7)]
  by (auto simp: post_uploads_def is_nonneg_integer_iff Let_def delete_blob_of_def
        bucket_delete_def caught_def
      split: option.splits prod.splits)

text \<open>
  The delete handler commits the removal to the catalog before it asks for the file's
  deletion.
\<close>

lemma delete_envelope_commits_first:
  "deletes_follow_commit (snd (snd (delete_envelope e param w)))"
  by (auto simp: delete_envelope_def Let_def findOneAndDelete_def caught_def
      split: sum.splits if_splits option.splits prod.splits)

subsection \<open>Evaluation on the example inputs\<close>

lemmas handler_eval = put_def app_post_uploads_def upload_single_def basename_def
  toLowerCase_def lower_char_def fileFilter_def
  post_uploads_def delete_envelope_def ensureDb_def Number_isInteger_def js_lt0_def
  findOne_def findOneAndDelete_def delete_blob_of_def bucket_delete_def store_file_def
  findOneAndUpdate_def set_fields_def json_of_def caught_def ObjectId_def hex_lower_def
  digit_val_def Let_def

lemma Number_7: "Number (Some ''7'') = Fin 7"
  by (simp add: Number_eval)

lemma Number_minus_1: "Number (Some ''-1'') = Fin (- 1)"
  by (simp add: Number_eval)

lemma Number_abc: "Number (Some ''abc'') = NaN"
  by (simp add: Number_eval)

lemma put_world0:
  "put cfg0 env1 ''7'' cat_bytes ''cat.png'' ''image/png'' world0 =
     ((200, UploadBody (json_of doc1)), world1,
      [BlobStored ''65a1f0c2d4e5b6a7c8d9e0f1'',
       CatalogUpserted (Fin 7) ''65a1f0c2d4e5b6a7c8d9e0f1''])"
  by (simp add: handler_eval Number_7 world0_def world1_def env1_def doc1_def cat_bytes_def)

lemma reachable_world1: "reachable world1"
  using reachable.after_post [OF reachable.initial, of cfg0 env1 _ _ world1]
    put_world0 by (simp add: put_def)

lemma Number_1e2: "Number (Some ''1e2'') = Fin 100"
  by (simp add: Number_eval)

lemma Number_3: "Number (Some ''3'') = Fin 3"
  by (simp add: Number_eval)

lemma put_world1:
  "put cfg0 env2 ''3'' dog_bytes ''dog.gif'' ''image/gif'' world1 =
     ((200, UploadBody (json_of doc2)), world2,
      [BlobStored ''65a1f0c2d4e5b6a7c8d9e0f2'',
       CatalogUpserted (Fin 3) ''65a1f0c2d4e5b6a7c8d9e0f2''])"
  by (simp add: handler_eval Number_3 world1_def world2_def env1_def env2_def doc1_def
        doc2_def dog_bytes_def)

section \<open>Rejection of an invalid envelope id\<close>

text \<open>
  C5 as stated fails for a field that is not a non-negative integer and yet coerces to
  one: the empty string is no string of digits, \<open>Number\<close> makes it \<open>0\<close>, and the upload is
  answered with 200 and inserts the document of envelope 0 into the empty catalog.
\<close>

theorem empty_envelopeId_is_accepted_counterexample:
  "\<not> is_nonneg_integer_literal (Some '''')
   \<and> fst (post_uploads env1 \<lparr>body_envelopeId = Some '''', req_file = Some png\<rparr> world0)
       = (200, UploadBody (json_of doc0))
   \<and> uploads (fst (snd (post_uploads env1
         \<lparr>body_envelopeId = Some '''', req_file = Some png\<rparr> world0))) = [doc0]
   \<and> snd (snd (post_uploads env1 \<lparr>body_envelopeId = Some '''', req_file = Some png\<rparr> world0))
       = [BlobStored ''65a1f0c2d4e5b6a7c8d9e0f1'',
          CatalogUpserted (Fin 0) ''65a1f0c2d4e5b6a7c8d9e0f1'']
   \<and> uploads world0 = []"
  by (simp add: handler_eval Number_whitespace is_nonneg_integer_literal_def world0_def
        env1_def doc0_def doc1_def png_def)

text \<open>
  C5, amended. When the number the envelope id coerces to is not a non-negative integer
  (as with \<open>-1\<close>, \<open>abc\<close> and a missing field), the upload handler and the delete handler
  answer with an error, make no storage effect and leave the catalog and the bucket as
  they were; with a database connection the answer is the validation error 400
  \<open>Invalid envelopeId\<close>.
\<close>

theorem invalid_envelopeId_rejected:
  assumes "\<not> is_nonneg_integer (Number raw)"
    and "post_uploads e \<lparr>body_envelopeId = raw, req_file = f\<rparr> w = (r, w', t)"
    and "\<not> is_nonneg_integer (Number (Some param))"
    and "delete_envelope e2 param v = (r2, v', t2)"
  shows "fst r \<noteq> 200 \<and> uploads w' = uploads w \<and> files w' = files w \<and> t = []
       \<and> (connects e w \<longrightarrow> r = (400, ErrorBody ''Invalid envelopeId''))
       \<and> fst r2 \<noteq> 200 \<and> uploads v' = uploads v \<and> files v' = files v \<and> t2 = []
       \<and> (connects e2 v \<longrightarrow> r2 = (400, ErrorBody ''Invalid envelopeId''))"
proof -
  have post: "fst r \<noteq> 200 \<and> uploads w' = uploads w \<and> files w' = files w \<and> t = []
       \<and> (connects e w \<longrightarrow> r = (400, ErrorBody ''Invalid envelopeId''))"
  proof (cases "ensureDb e w")
    case (Inl m)
    with assms(2) ensureDb_Inl [OF Inl] show ?thesis
      by (auto simp: post_uploads_def caught_def)
  next
    case (Inr w1)
    with assms(1,2) ensureDb_Inr [OF Inr] show ?thesis
      by (auto simp: post_uploads_def is_nonneg_integer_iff Let_def split: if_splits)
  qed
  have del: "fst r2 \<noteq> 200 \<and> uploads v' = uploads v \<and> files v' = files v \<and> t2 = []
       \<and> (connects e2 v \<longrightarrow> r2 = (400, ErrorBody ''Invalid envelopeId''))"
  proof (cases "ensureDb e2 v")
    case (Inl m)
    with assms(4) ensureDb_Inl [OF Inl] show ?thesis
      by (auto simp: delete_envelope_def caught_def)
  next
    case (Inr v1)
    with assms(3,4) ensureDb_Inr [OF Inr] show ?thesis
      by (auto simp: delete_envelope_def is_nonneg_integer_iff Let_def split: if_splits)
  qed
  from post del show ?thesis by simp
qed

theorem invalid_envelopeId_rejected_witness:
  "\<not> is_nonneg_integer (Number (Some ''-1'')) \<and> \<not> is_nonneg_integer (Number (Some ''abc''))
   \<and> connects env1 world0
   \<and> fst (post_uploads env1 \<lparr>body_envelopeId = Some ''-1'', req_file = Some png\<rparr> world0)
       = (400, ErrorBody ''Invalid envelopeId'')
   \<and> snd (snd (post_uploads env1 \<lparr>body_envelopeId = Some ''-1'', req_file = Some png\<rparr> world0)) = []
   \<and> uploads (fst (snd (post_uploads env1 \<lparr>body_envelopeId = Some ''-1'', req_file = Some png\<rparr> world0)))
       = uploads world0
   \<and> fst (delete_envelope env1 ''abc'' world0) = (400, ErrorBody ''Invalid envelopeId'')
   \<and> snd (snd (delete_envelope env1 ''abc'' world0)) = []
   \<and> uploads (fst (snd (delete_envelope env1 ''abc'' world0))) = uploads world0"
proof -
  have a: "\<not> is_nonneg_integer (Number (Some ''-1''))"
    by (simp add: Number_eval is_nonneg_integer_def)
  have b: "\<not> is_nonneg_integer (Number (Some ''abc''))"
    by (simp add: Number_eval is_nonneg_integer_def)
  have c: "connects env1 world0" by (simp add: connects_def env1_def)
  show ?thesis
    using invalid_envelopeId_rejected [where raw = "Some ''-1''" and e = env1 and f = "Some png"
        and w = world0 and param = "''abc''" and ?e2.0 = env1 and v = world0
        and r = "fst (post_uploads env1 \<lparr>body_envelopeId = Some ''-1'', req_file = Some png\<rparr> world0)"
        and w' = "fst (snd (post_uploads env1 \<lparr>body_envelopeId = Some ''-1'', req_file = Some png\<rparr> world0))"
        and t = "snd (snd (post_uploads env1 \<lparr>body_envelopeId = Some ''-1'', req_file = Some png\<rparr> world0))"
        and ?r2.0 = "fst (delete_envelope env1 ''abc'' world0)"
        and v' = "fst (snd (delete_envelope env1 ''abc'' world0))"
        and ?t2.0 = "snd (snd (delete_envelope env1 ''abc'' world0))", OF a _ b] a b c
    by simp
qed

section \<open>Deleting an absent envelope\<close>

text \<open>
  C9. For a valid envelope id that no document of the catalog has, the delete handler
  answers 200 with \<open>deleted: false\<close>, raises nothing, makes no storage effect and leaves
  the catalog and the bucket unchanged (the database calls succeeding).
\<close>

theorem delete_absent_is_noop:
  assumes "is_nonneg_integer (Number (Some param))"
    and "findOne (Number (Some param)) (uploads w) = None"
    and "connects e w" and "remove_err e = None"
    and "delete_envelope e param w = (r, w', t)"
  shows "r = (200, DeletedBody False) \<and> uploads w' = uploads w \<and> files w' = files w \<and> t = []"
  using assms ensureDb_connects [OF assms(3)]
  by (auto simp: delete_envelope_def is_nonneg_integer_iff findOneAndDelete_def Let_def)

theorem delete_absent_is_noop_witness:
  "is_nonneg_integer (Number (Some ''7'')) \<and> findOne (Number (Some ''7'')) (uploads world0) = None
   \<and> connects env1 world0 \<and> remove_err env1 = None
   \<and> fst (delete_envelope env1 ''7'' world0) = (200, DeletedBody False)
   \<and> uploads (fst (snd (delete_envelope env1 ''7'' world0))) = []
   \<and> snd (snd (delete_envelope env1 ''7'' world0)) = []"
proof -
  have a: "is_nonneg_integer (Number (Some ''7''))"
    by (simp add: Number_eval is_nonneg_integer_def)
  have b: "findOne (Number (Some ''7'')) (uploads world0) = None"
    by (simp add: findOne_def world0_def)
  have c: "connects env1 world0" by (simp add: connects_def env1_def)
  have d: "remove_err env1 = None" by (simp add: env1_def)
  show ?thesis
    using delete_absent_is_noop [OF a b c d, where r = "fst (delete_envelope env1 ''7'' world0)"
       and w' = "fst (snd (delete_envelope env1 ''7'' world0))" 
       and t = "snd (snd (delete_envelope env1 ''7'' world0))"] a b c d
    by (simp add: world0_def)
qed

section \<open>A failed blob write\<close>

text \<open>
  C6. When the upload stream fails, the handler answers with an error and the catalog is
  as before the call: no upsert is in the trace, and the document of any envelope id is
  still the one it was. If the call got as far as the upload, the answer is the 500 of the
  \<open>catch\<close> with the stream's message.
\<close>

theorem blob_write_failure_keeps_catalog:
  assumes "upload_err e = Some m"
    and "post_uploads e req w = (r, w', t)"
  shows "fst r \<noteq> 200 \<and> uploads w' = uploads w \<and> filter is_upsert t = []
       \<and> findOne k (uploads w') = findOne k (uploads w)
       \<and> (connects e w \<and> is_nonneg_integer (Number (body_envelopeId req))
            \<and> req_file req \<noteq> None \<and> findOne_err e = None
          \<longrightarrow> r = caught ''Upload failed'' m)"
proof -
  have "fst r \<noteq> 200 \<and> uploads w' = uploads w \<and> filter is_upsert t = []
       \<and> (connects e w \<and> is_nonneg_integer (Number (body_envelopeId req))
            \<and> req_file req \<noteq> None \<and> findOne_err e = None
          \<longrightarrow> r = caught ''Upload failed'' m)"
  proof (cases "ensureDb e w")
    case (Inl x)
    with assms(2) ensureDb_Inl [OF Inl] show ?thesis
      by (auto simp: post_uploads_def caught_def)
  next
    case (Inr w1)
    with assms ensureDb_Inr [OF Inr] show ?thesis
      by (auto simp: post_uploads_def caught_def is_nonneg_integer_iff Let_def is_upsert_def
            delete_blob_of_def bucket_delete_def
          split: if_splits option.splits prod.splits)
  qed
  then show ?thesis by simp
qed


theorem blob_write_failure_keeps_catalog_witness:
  "upload_err env_upload_fails = Some ''stream destroyed''
   \<and> fst (post_uploads env_upload_fails \<lparr>body_envelopeId = Some ''7'', req_file = Some png\<rparr> world1)
       = (500, ErrorBody ''stream destroyed'')
   \<and> uploads (fst (snd (post_uploads env_upload_fails
                          \<lparr>body_envelopeId = Some ''7'', req_file = Some png\<rparr> world1))) = [doc1]
   \<and> findOne (Fin 7) (uploads (fst (snd (post_uploads env_upload_fails
                          \<lparr>body_envelopeId = Some ''7'', req_file = Some png\<rparr> world1)))) = Some doc1"
proof -
  have a: "upload_err env_upload_fails = Some ''stream destroyed''"
    by (simp add: env_upload_fails_def)
  have b: "connects env_upload_fails world1" by (simp add: connects_def world1_def)
  have c: "is_nonneg_integer (Number (Some ''7''))"
    by (simp add: Number_7 is_nonneg_integer_def)
  have d: "findOne_err env_upload_fails = None"
    by (simp add: env_upload_fails_def env2_def env1_def)
  show ?thesis
    using blob_write_failure_keeps_catalog [OF a, where req = "\<lparr>body_envelopeId = Some ''7'', req_file = Some png\<rparr>"
      and w = world1 and k = "Fin 7"
      and r = "fst (post_uploads env_upload_fails \<lparr>body_envelopeId = Some ''7'', req_file = Some png\<rparr> world1)"
      and w' = "fst (snd (post_uploads env_upload_fails \<lparr>body_envelopeId = Some ''7'', req_file = Some png\<rparr> world1))"
      and t = "snd (snd (post_uploads env_upload_fails \<lparr>body_envelopeId = Some ''7'', req_file = Some png\<rparr> world1))"]
      a b c d
    by (simp add: caught_def world1_def findOne_def doc1_def)
qed

section \<open>The listing\<close>





section \<open>A missing or empty file\<close>

text \<open>
  C7 as stated fails for an empty byte stream: a file part of zero bytes reaches the
  handler as \<open>req.file\<close> with an empty buffer, the test \<open>!req.file\<close> lets it pass, and the
  upload is stored and answered with 200.
\<close>

theorem empty_file_is_stored_counterexample:
  "fst (put cfg0 env1 ''7'' [] ''cat.png'' ''image/png'' world0)
     = (200, UploadBody (json_of (doc1\<lparr>doc_size := 0\<rparr>)))
   \<and> uploads (fst (snd (put cfg0 env1 ''7'' [] ''cat.png'' ''image/png'' world0)))
     = [doc1\<lparr>doc_size := 0\<rparr>]
   \<and> snd (snd (put cfg0 env1 ''7'' [] ''cat.png'' ''image/png'' world0))
     = [BlobStored ''65a1f0c2d4e5b6a7c8d9e0f1'',
        CatalogUpserted (Fin 7) ''65a1f0c2d4e5b6a7c8d9e0f1'']
   \<and> uploads world0 = []"
  by (simp add: handler_eval Number_7 world0_def env1_def doc1_def)

text \<open>
  C7, amended. A request without a file part is answered with an error, makes no storage
  effect and leaves the catalog and the bucket unchanged; with a database connection and
  a valid envelope id the answer is 400 \<open>No file uploaded\<close>.
\<close>

theorem missing_file_rejected:
  assumes "app_post_uploads cfg e \<lparr>field_envelopeId = raw, image = None\<rparr> w = (r, w', t)"
  shows "fst r \<noteq> 200 \<and> uploads w' = uploads w \<and> files w' = files w \<and> t = []
       \<and> (connects e w \<and> is_nonneg_integer (Number raw)
            \<longrightarrow> r = (400, ErrorBody ''No file uploaded''))"
proof (cases "ensureDb e w")
  case (Inl m)
  with assms ensureDb_Inl [OF Inl] show ?thesis
    by (auto simp: app_post_uploads_def upload_single_def post_uploads_def caught_def)
next
  case (Inr w1)
  with assms ensureDb_Inr [OF Inr] show ?thesis
    by (auto simp: app_post_uploads_def upload_single_def post_uploads_def
          is_nonneg_integer_iff Let_def split: if_splits)
qed

theorem missing_file_rejected_witness:
  "connects env1 world1 \<and> is_nonneg_integer (Number (Some ''7''))
   \<and> app_post_uploads cfg0 env1 \<lparr>field_envelopeId = Some ''7'', image = None\<rparr> world1
       = ((400, ErrorBody ''No file uploaded''), world1, [])"
proof -
  have a: "connects env1 world1" by (simp add: connects_def world1_def)
  have b: "is_nonneg_integer (Number (Some ''7''))"
    by (simp add: Number_7 is_nonneg_integer_def)
  have c: "app_post_uploads cfg0 env1 \<lparr>field_envelopeId = Some ''7'', image = None\<rparr> world1
       = ((400, ErrorBody ''No file uploaded''), world1, [])"
    by (simp add: handler_eval Number_7 world1_def)
  from missing_file_rejected [OF c] a b c show ?thesis by simp
qed

section \<open>A failed catalog write\<close>

text \<open>
  C4 as stated fails in its last part: when \<open>findOneAndUpdate\<close> rejects, the \<open>catch\<close>
  only answers 500. No deletion of the file just written is requested, and the file stays
  in the bucket.
\<close>

theorem no_orphan_cleanup_counterexample:
  "fst (put cfg0 env_upsert_fails ''7'' cat_bytes ''cat.png'' ''image/png'' world0)
     = (500, ErrorBody ''catalog unavailable'')
   \<and> snd (snd (put cfg0 env_upsert_fails ''7'' cat_bytes ''cat.png'' ''image/png'' world0))
     = [BlobStored (newFileId env_upsert_fails)]
   \<and> files (fst (snd (put cfg0 env_upsert_fails ''7'' cat_bytes ''cat.png'' ''image/png'' world0)))
        (newFileId env_upsert_fails)
     = Some \<lparr>filename = ''cat.png'', contentType = ''image/png'',
              metadata_envelopeId = Fin 7, chunks = cat_bytes\<rparr>"
  by (simp add: handler_eval Number_7 world0_def env1_def env2_def env_upsert_fails_def)

text \<open>
  C4, amended. When the catalog write fails after the file was written, the caller gets
  the 500 of the \<open>catch\<close>, the catalog is unchanged, so that the document an envelope id
  had is still its answer, and the new file stays in the bucket: the trace ends with its
  write, preceded only by the deletion request for the file of the document found at the
  start.
\<close>

theorem catalog_write_failure_keeps_catalog_and_blob:
  assumes "connects e w"
    and "is_nonneg_integer (Number (body_envelopeId req))"
    and "req_file req = Some f"
    and "findOne_err e = None" and "upload_err e = None" and "upsert_err e = Some m"
    and "post_uploads e req w = (r, w', t)"
  shows "r = caught ''Upload failed'' m
       \<and> uploads w' = uploads w
       \<and> findOne k (uploads w') = findOne k (uploads w)
       \<and> files w' (newFileId e)
           = Some \<lparr>filename = originalname f, contentType = mimetype f,
                    metadata_envelopeId = Number (body_envelopeId req), chunks = buffer f\<rparr>
       \<and> t = snd (delete_blob_of (findOne (Number (body_envelopeId req)) (uploads w)) w)
               @ [BlobStored (newFileId e)]"
proof -
  obtain w2 t2 where d: "delete_blob_of (findOne (Number (body_envelopeId req)) (uploads w))
       (w\<lparr>isConnected := True, gfsBucket := True\<rparr>) = (w2, t2)"
    by (cases "delete_blob_of (findOne (Number (body_envelopeId req)) (uploads w))
       (w\<lparr>isConnected := True, gfsBucket := True\<rparr>)")
  have t2: "snd (delete_blob_of (findOne (Number (body_envelopeId req)) (uploads w)) w) = t2"
    using d by (auto simp: delete_blob_of_def split: option.splits if_splits)
  from delete_blob_of_keeps [OF d] have u: "uploads w2 = uploads w" by simp
  from assms d ensureDb_connects [OF assms(1)] have
    "r = caught ''Upload failed'' m" "w' = store_file (newFileId e) (Number (body_envelopeId req)) f w2"
    "t = t2 @ [BlobStored (newFileId e)]"
    by (auto simp: post_uploads_def is_nonneg_integer_iff Let_def)
  with u t2 show ?thesis by (simp add: store_file_def)
qed

theorem catalog_write_failure_keeps_catalog_and_blob_witness:
  "connects env_upsert_fails world1 \<and> is_nonneg_integer (Number (Some ''7''))
   \<and> findOne_err env_upsert_fails = None \<and> upload_err env_upsert_fails = None
   \<and> upsert_err env_upsert_fails = Some ''catalog unavailable''
   \<and> fst (post_uploads env_upsert_fails \<lparr>body_envelopeId = Some ''7'', req_file = Some png\<rparr> world1)
       = (500, ErrorBody ''catalog unavailable'')
   \<and> uploads (fst (snd (post_uploads env_upsert_fails
         \<lparr>body_envelopeId = Some ''7'', req_file = Some png\<rparr> world1))) = [doc1]
   \<and> files (fst (snd (post_uploads env_upsert_fails
         \<lparr>body_envelopeId = Some ''7'', req_file = Some png\<rparr> world1)))
         ''65a1f0c2d4e5b6a7c8d9e0f2''
       = Some \<lparr>filename = ''cat.png'', contentType = ''image/png'',
                metadata_envelopeId = Fin 7, chunks = cat_bytes\<rparr>
   \<and> snd (snd (post_uploads env_upsert_fails
         \<lparr>body_envelopeId = Some ''7'', req_file = Some png\<rparr> world1))
       = [BlobDeleteRequested ''65a1f0c2d4e5b6a7c8d9e0f1'',
          BlobStored ''65a1f0c2d4e5b6a7c8d9e0f2'']"
proof -
  have a: "connects env_upsert_fails world1" by (simp add: connects_def world1_def)
  have b: "is_nonneg_integer (Number (body_envelopeId \<lparr>body_envelopeId = Some ''7'', req_file = Some png\<rparr>))"
    by (simp add: Number_7 is_nonneg_integer_def)
  have c: "req_file \<lparr>body_envelopeId = Some ''7'', req_file = Some png\<rparr> = Some png" by simp
  have d: "findOne_err env_upsert_fails = None" "upload_err env_upsert_fails = None"
    "upsert_err env_upsert_fails = Some ''catalog unavailable''"
    by (simp_all add: env_upsert_fails_def env2_def env1_def)
  show ?thesis
    using catalog_write_failure_keeps_catalog_and_blob [OF a b c d, where k = "Fin 7"
      and r = "fst (post_uploads env_upsert_fails \<lparr>body_envelopeId = Some ''7'', req_file = Some png\<rparr> world1)"
      and w' = "fst (snd (post_uploads env_upsert_fails \<lparr>body_envelopeId = Some ''7'', req_file = Some png\<rparr> world1))"
      and t = "snd (snd (post_uploads env_upsert_fails \<lparr>body_envelopeId = Some ''7'', req_file = Some png\<rparr> world1))"]
      a b d
    by (simp add: caught_def world1_def png_def Number_7 findOne_def doc1_def
          delete_blob_of_def ObjectId_def hex_lower_def digit_val_def bucket_delete_def
          env_upsert_fails_def env2_def env1_def)
qed


section \<open>Upload, then lookup and read\<close>

text \<open>
  C3. When the upload handler has answered 200 for a request with envelope id \<open>id\<close> and
  file \<open>req.file\<close>, \<open>get(id)\<close> on the state it left returns the entry the upload answered
  with; its display name, content type and size are \<open>originalname\<close>, \<open>mimetype\<close> and
  \<open>size\<close> of the file, the size being the number of bytes of the buffer, and reading its
  \<open>url\<close> streams exactly the buffer's bytes, under the file's content type if it has one.
  The catalog before the upload satisfies I1, the ObjectId of the new file is in canonical
  form, \<open>req.file.size\<close> is the length of the buffer, as memory storage sets it, and the
  database calls of the lookup and the read succeed.
\<close>

theorem put_then_get_and_read:
  assumes ok: "post_uploads e req w = ((200, b), w', t)"
    and rf: "req_file req = Some f"
    and sz: "file_size f = length (buffer f)"
    and inv: "I1 w"
    and oid: "ObjectId (newFileId e) = Some (newFileId e)"
    and db: "find_err e' = None" "download_err e' = False"
  shows "\<exists>j. b = UploadBody j \<and> get cfg e' w' (Number (body_envelopeId req)) = Some j
           \<and> is_nonneg_integer (Number (body_envelopeId req))
           \<and> j_envelopeId j = Number (body_envelopeId req)
           \<and> j_originalName j = originalname f \<and> j_mimeType j = mimetype f
           \<and> j_size j = file_size f \<and> j_size j = length (buffer f)
           \<and> readBlob e' w' (j_url j)
               = Streamed (if mimetype f = [] then None else Some (mimetype f))
                   ''public, max-age=31536000, immutable'' (buffer f)"
proof -
  define eid where "eid = Number (body_envelopeId req)"
  define fid where "fid = newFileId e"
  define name where "name = originalname f"
  define ctype where "ctype = mimetype f"
  define bytes where "bytes = buffer f"
  note run = ok
  from post_uploads_200 [OF run] rf have pre:
    "connects e w" "is_nonneg_integer eid" "req_file req = Some f"
    "findOne_err e = None" "upload_err e = None" "upsert_err e = None"
    by (simp_all add: eid_def)
  define upd where "upd = set_fields eid name ctype (length bytes) fid (''/api/files/'' @ fid)"
  define ups where "ups = findOneAndUpdate e eid upd (uploads w)"
  define del where "del = delete_blob_of (findOne eid (uploads w))
                            (w\<lparr>isConnected := True, gfsBucket := True\<rparr>)"
  have upd_k: "\<And>d. envelopeId (upd d) = eid" by (simp add: upd_def)
  from post_uploads_ok [of e w req f] pre run sz
  have b: "b = UploadBody (json_of (fst ups))"
    and w': "w' = (store_file fid eid f (fst del))\<lparr>uploads := snd ups\<rparr>"
    by (simp_all add: Let_def eid_def fid_def ups_def upd_def del_def name_def ctype_def
          bytes_def)
  define d where "d = fst ups"
  have found: "findOne eid (snd ups) = Some d"
    unfolding ups_def d_def by (rule findOne_after_upsert) (rule upd_k)
  then have mem: "d \<in> set (snd ups)" and deid: "envelopeId d = eid"
    using findOne_Some by blast+
  have dist: "distinct (map envelopeId (snd ups))"
    unfolding ups_def using upd_k inv by (intro distinct_after_upsert) (simp_all add: I1_def)
  have fields: "originalName d = name" "mimeType d = ctype" "doc_size d = length bytes"
    "fileId d = Some fid" "url d = ''/api/files/'' @ fid"
    by (simp_all add: d_def ups_def upd_def findOneAndUpdate_def set_fields_def Let_def
          split: option.splits)
  from ObjectId_nonempty [OF oid] have "fid \<noteq> []" by (simp add: fid_def)
  with fields(4) have lst: "listed cfg d" by (simp add: listed_def truthy_def)
  have conn: "isConnected w'" by (simp add: w' store_file_def del_def delete_blob_of_def
        bucket_delete_def split: option.splits)
  have up: "uploads w' = snd ups" by (simp add: w')
  from foldl_byEnvelopeId_lookup [OF dist mem _ lst, of Map.empty] pre(2) deid
  have "foldl (byEnvelopeId_step cfg) Map.empty (snd ups) eid = Some (json_of d)" by simp
  with conn up db(1) have g: "get cfg e' w' eid = Some (json_of d)"
    by (simp add: get_def get_envelopes_def ensureDb_def)
  have fl: "files w' fid = Some \<lparr>filename = name, contentType = ctype,
        metadata_envelopeId = eid, chunks = bytes\<rparr>"
    by (simp add: w' store_file_def name_def ctype_def bytes_def)
  with conn oid db ObjectId_nonempty [OF oid]
  have r: "readBlob e' w' (url d)
      = Streamed (if ctype = [] then None else Some ctype)
          ''public, max-age=31536000, immutable'' bytes"
    by (simp add: readBlob_def get_file_def ensureDb_def fields(5) fid_def)
  from b g r fields deid pre(2) sz show ?thesis
    by (intro exI [of _ "json_of d"])
      (simp add: d_def eid_def json_of_def name_def ctype_def bytes_def)
qed

theorem put_then_get_and_read_witness:
  "post_uploads env1 \<lparr>body_envelopeId = Some ''7'', req_file = Some png\<rparr> world0 =
     ((200, UploadBody (json_of doc1)), world1,
      [BlobStored ''65a1f0c2d4e5b6a7c8d9e0f1'',
       CatalogUpserted (Fin 7) ''65a1f0c2d4e5b6a7c8d9e0f1''])
   \<and> file_size png = length (buffer png)
   \<and> I1 world0 \<and> ObjectId (newFileId env1) = Some (newFileId env1)
   \<and> find_err env2 = None \<and> download_err env2 = False
   \<and> get cfg0 env2 world1 (Number (Some ''7'')) = Some (json_of doc1)
   \<and> j_originalName (json_of doc1) = ''cat.png''
   \<and> j_mimeType (json_of doc1) = ''image/png''
   \<and> j_size (json_of doc1) = length cat_bytes
   \<and> readBlob env2 world1 (j_url (json_of doc1))
       = Streamed (Some ''image/png'') ''public, max-age=31536000, immutable'' cat_bytes"
proof -
  have run: "post_uploads env1 \<lparr>body_envelopeId = Some ''7'', req_file = Some png\<rparr> world0 =
     ((200, UploadBody (json_of doc1)), world1,
      [BlobStored ''65a1f0c2d4e5b6a7c8d9e0f1'',
       CatalogUpserted (Fin 7) ''65a1f0c2d4e5b6a7c8d9e0f1''])"
    by (simp add: handler_eval Number_7 world0_def world1_def env1_def doc1_def png_def
          cat_bytes_def)
  have f: "req_file \<lparr>body_envelopeId = Some ''7'', req_file = Some png\<rparr> = Some png"
    by simp
  have s: "file_size png = length (buffer png)" by (simp add: png_def cat_bytes_def)
  have a: "ObjectId (newFileId env1) = Some (newFileId env1)"
    by (simp add: env1_def ObjectId_def hex_lower_def digit_val_def)
  have b: "find_err env2 = None" "download_err env2 = False"
    by (simp_all add: env2_def env1_def)
  from put_then_get_and_read [OF run f s I1_world0 a b, of cfg0]
  obtain j where "UploadBody (json_of doc1) = UploadBody j"
    "get cfg0 env2 world1 (Number (Some ''7'')) = Some j"
    "j_originalName j = originalname png" "j_mimeType j = mimetype png"
    "j_size j = length (buffer png)"
    "readBlob env2 world1 (j_url j)
       = Streamed (if mimetype png = [] then None else Some (mimetype png))
           ''public, max-age=31536000, immutable'' (buffer png)"
    by auto
  with run s I1_world0 a b show ?thesis by (simp add: png_def)
qed

section \<open>What the coercion lets through\<close>

lemma post_uploads_mutates:
  assumes "connects e w"
    and "is_nonneg_integer (Number (Some raw))"
    and "findOne_err e = None" and "upload_err e = None" and "upsert_err e = None"
  shows "fst (fst (post_uploads e \<lparr>body_envelopeId = Some raw, req_file = Some f\<rparr> w)) = 200
       \<and> map_option fileId
            (findOne (Number (Some raw))
               (uploads (fst (snd (post_uploads e \<lparr>body_envelopeId = Some raw, req_file = Some f\<rparr> w)))))
           = Some (Some (newFileId e))"
proof -
  define eid where "eid = Number (Some raw)"
  define upd where "upd = set_fields eid (originalname f) (mimetype f) (file_size f)
                            (newFileId e) (''/api/files/'' @ newFileId e)"
  have k: "\<And>d. envelopeId (upd d) = eid" by (simp add: upd_def)
  have fi: "fileId (fst (findOneAndUpdate e eid upd (uploads w))) = Some (newFileId e)"
    by (simp add: findOneAndUpdate_def upd_def set_fields_def Let_def split: option.splits)
  from post_uploads_ok [of e w "\<lparr>body_envelopeId = Some raw, req_file = Some f\<rparr>" f] assms
  have "fst (fst (post_uploads e \<lparr>body_envelopeId = Some raw, req_file = Some f\<rparr> w)) = 200"
    and "uploads (fst (snd (post_uploads e \<lparr>body_envelopeId = Some raw, req_file = Some f\<rparr> w)))
          = snd (findOneAndUpdate e eid upd (uploads w))"
    by (simp_all add: Let_def eid_def upd_def)
  with findOne_after_upsert [of upd eid e "uploads w", OF k] fi show ?thesis
    by (simp add: eid_def)
qed

text \<open>
  C10. \<open>Number\<close> maps the empty string and every string of white space to \<open>0\<close>, and
  \<open>1e2\<close> to \<open>100\<close>. The validation passes on them as on any string whose number is a whole
  number not below zero: with a file and a working database the upload is answered with
  200 and the document of envelope \<open>0\<close>, or of the envelope the string denotes, refers to
  the new file.
\<close>

theorem coercion_accepts_more_than_integer_literals:
  assumes "list_all is_ws s"
    and "is_nonneg_integer (Number (Some raw))"
    and "connects e w"
    and "findOne_err e = None" and "upload_err e = None" and "upsert_err e = None"
  shows "Number (Some '''') = Fin 0 \<and> Number (Some s) = Fin 0
       \<and> Number (Some ''1e2'') = Fin 100
       \<and> fst (fst (post_uploads e \<lparr>body_envelopeId = Some s, req_file = Some f\<rparr> w)) = 200
       \<and> map_option fileId
            (findOne (Fin 0)
               (uploads (fst (snd (post_uploads e \<lparr>body_envelopeId = Some s, req_file = Some f\<rparr> w)))))
           = Some (Some (newFileId e))
       \<and> fst (fst (post_uploads e \<lparr>body_envelopeId = Some raw, req_file = Some f\<rparr> w)) = 200
       \<and> map_option fileId
            (findOne (Number (Some raw))
               (uploads (fst (snd (post_uploads e \<lparr>body_envelopeId = Some raw, req_file = Some f\<rparr> w)))))
           = Some (Some (newFileId e))"
proof -
  have z: "Number (Some s) = Fin 0" using assms(1) by (rule Number_whitespace)
  then have v: "is_nonneg_integer (Number (Some s))" by (simp add: is_nonneg_integer_def)
  have e0: "Number (Some '''') = Fin 0" by (rule Number_whitespace) simp
  from post_uploads_mutates [OF assms(3) v assms(4-6), of f]
    post_uploads_mutates [OF assms(3) assms(2) assms(4-6), of f] z e0 Number_1e2
  show ?thesis by simp
qed

theorem coercion_accepts_more_than_integer_literals_witness:
  "list_all is_ws [CHR 0x20, CHR 0x09] \<and> is_nonneg_integer (Number (Some ''1e2''))
   \<and> connects env1 world0
   \<and> findOne_err env1 = None \<and> upload_err env1 = None \<and> upsert_err env1 = None
   \<and> Number (Some [CHR 0x20, CHR 0x09]) = Fin 0
   \<and> fst (fst (post_uploads env1 \<lparr>body_envelopeId = Some [CHR 0x20, CHR 0x09], req_file = Some png\<rparr> world0)) = 200
   \<and> map_option envelopeId
        (findOne (Fin 0)
           (uploads (fst (snd (post_uploads env1
              \<lparr>body_envelopeId = Some [CHR 0x20, CHR 0x09], req_file = Some png\<rparr> world0)))))
       = Some (Fin 0)
   \<and> map_option envelopeId
        (findOne (Fin 100)
           (uploads (fst (snd (post_uploads env1
              \<lparr>body_envelopeId = Some ''1e2'', req_file = Some png\<rparr> world0)))))
       = Some (Fin 100)"
proof -
  have a: "list_all is_ws [CHR 0x20, CHR 0x09]" by (simp add: is_ws_def)
  have b: "is_nonneg_integer (Number (Some ''1e2''))"
    by (simp add: Number_1e2 is_nonneg_integer_def)
  have c: "connects env1 world0" by (simp add: connects_def env1_def)
  have d: "findOne_err env1 = None" "upload_err env1 = None" "upsert_err env1 = None"
    by (simp_all add: env1_def)
  from coercion_accepts_more_than_integer_literals [OF a b c d, of png]
  have "Number (Some [CHR 0x20, CHR 0x09]) = Fin 0"
    "fst (fst (post_uploads env1 \<lparr>body_envelopeId = Some [CHR 0x20, CHR 0x09], req_file = Some png\<rparr> world0)) = 200"
    "findOne (Fin 0) (uploads (fst (snd (post_uploads env1
              \<lparr>body_envelopeId = Some [CHR 0x20, CHR 0x09], req_file = Some png\<rparr> world0)))) \<noteq> None"
    "findOne (Fin 100) (uploads (fst (snd (post_uploads env1
              \<lparr>body_envelopeId = Some ''1e2'', req_file = Some png\<rparr> world0)))) \<noteq> None"
    by (auto simp: Number_1e2)
  with a b c d show ?thesis by (auto dest: findOne_Some)
qed

section \<open>The old file is deleted before the catalog is written\<close>

text \<open>
  C1 does not hold of the upload handler. The store holds envelope 7 with its file (a
  reachable state, lemma \<open>reachable_world1\<close>); a second upload for envelope 7 succeeds,
  and its trace requests the deletion of the old file first, then stores the new file,
  and writes the catalog last. The same holds of every upload to an envelope that has a
  file (lemma \<open>post_uploads_deletes_first\<close>). The delete handler keeps the order the
  claim asks for (lemma \<open>delete_envelope_commits_first\<close>).
\<close>

theorem replace_requests_deletion_before_upsert:
  "findOne (Fin 7) (uploads world1) = Some doc1
   \<and> fileId doc1 = Some ''65a1f0c2d4e5b6a7c8d9e0f1''
   \<and> fst (fst (put cfg0 env2 ''7'' dog_bytes ''dog.gif'' ''image/gif'' world1)) = 200
   \<and> snd (snd (put cfg0 env2 ''7'' dog_bytes ''dog.gif'' ''image/gif'' world1))
       = [BlobDeleteRequested ''65a1f0c2d4e5b6a7c8d9e0f1'',
          BlobStored ''65a1f0c2d4e5b6a7c8d9e0f2'',
          CatalogUpserted (Fin 7) ''65a1f0c2d4e5b6a7c8d9e0f2'']
   \<and> \<not> deletes_follow_commit
          (snd (snd (put cfg0 env2 ''7'' dog_bytes ''dog.gif'' ''image/gif'' world1)))"
  by (simp add: handler_eval Number_7 world1_def env1_def env2_def doc1_def)

text \<open>
  C2 does not hold of the upload handler. On the same store, a second upload for
  envelope 7 whose stream fails is answered with 500 after the old file's deletion was
  requested: the catalog still has the document of envelope 7, its file is gone, and
  reading its \<open>url\<close> gives 404.
\<close>

theorem failed_replace_leaves_dangling_entry:
  "\<not> dangling world1 doc1
   \<and> fst (put cfg0 env_upload_fails ''7'' dog_bytes ''dog.gif'' ''image/gif'' world1)
       = (500, ErrorBody ''stream destroyed'')
   \<and> snd (snd (put cfg0 env_upload_fails ''7'' dog_bytes ''dog.gif'' ''image/gif'' world1))
       = [BlobDeleteRequested ''65a1f0c2d4e5b6a7c8d9e0f1'']
   \<and> findOne (Fin 7)
        (uploads (fst (snd (put cfg0 env_upload_fails ''7'' dog_bytes ''dog.gif'' ''image/gif'' world1))))
       = Some doc1
   \<and> dangling (fst (snd (put cfg0 env_upload_fails ''7'' dog_bytes ''dog.gif'' ''image/gif'' world1))) doc1
   \<and> readBlob env1
        (fst (snd (put cfg0 env_upload_fails ''7'' dog_bytes ''dog.gif'' ''image/gif'' world1)))
        (url doc1)
       = Ended 404 ''Not found''"
  by (simp add: handler_eval Number_7 world1_def env1_def env2_def env_upload_fails_def doc1_def
        dangling_def blob_of_def truthy_def readBlob_def get_file_def)


end
